theory Spec2Isabelle
  imports Main "HOL-Library.Word"
begin

section \<open>Python values used by \<^verbatim>\<open>convert_calendar.py\<close>\<close>

text \<open>
  Python strings are modelled as \<^typ>\<open>string\<close>; a character stands for a code point
  below 256. Every raise of the script is a value of \<open>error\<close>, and a function
  that may raise returns \<open>error + 'a\<close> with \<open>Inl\<close> for the exception.
\<close>

datatype error =
    AttributeError \<comment> \<open>\<^verbatim>\<open>None.text\<close>\<close>
  | TypeError \<comment> \<open>\<^verbatim>\<open>int(None)\<close>, iterating \<^verbatim>\<open>None\<close>, subscripting a non-container\<close>
  | ValueError \<comment> \<open>\<^verbatim>\<open>int("abc")\<close>\<close>
  | KeyError
  | IndexError
  | JSONDecodeError
  | XMLSyntaxError \<comment> \<open>raised by \<^verbatim>\<open>ElementTree.parse\<close> on a malformed document\<close>

text \<open>
  \<^verbatim>\<open>str.strip()\<close> removes the characters for which \<^verbatim>\<open>str.isspace\<close> holds: below
  code point 256 these are 9 to 13, 28 to 32, 133 and 160.
\<close>

definition isspace :: "char \<Rightarrow> bool" where
  "isspace c = (let n = (of_char c :: nat) in
     (9 \<le> n \<and> n \<le> 13) \<or> (28 \<le> n \<and> n \<le> 32) \<or> n = 133 \<or> n = 160)"

definition lstrip :: "string \<Rightarrow> string" where
  "lstrip s = dropWhile isspace s"

definition rstrip :: "string \<Rightarrow> string" where
  "rstrip s = rev (dropWhile isspace (rev s))"

definition strip :: "string \<Rightarrow> string" where
  "strip s = rstrip (lstrip s)"

text \<open>\<^verbatim>\<open>str.replace\<close> of a single character by a string.\<close>

definition replace_char :: "char \<Rightarrow> string \<Rightarrow> string \<Rightarrow> string" where
  "replace_char c r s = concat (map (\<lambda>x. if x = c then r else [x]) s)"

text \<open>Decimal digits of a natural number, as \<^verbatim>\<open>str(n)\<close> prints them.\<close>

definition digit_char :: "nat \<Rightarrow> char" where
  "digit_char d = ''0123456789abcdef'' ! d"

fun dec_str :: "nat \<Rightarrow> string" where
  "dec_str n = (if n < 10 then [digit_char n] else dec_str (n div 10) @ [digit_char (n mod 10)])"

declare dec_str.simps [simp del]

definition int_str :: "int \<Rightarrow> string" where
  "int_str i = (if i < 0 then CHR ''-'' # dec_str (nat (- i)) else dec_str (nat i))"

text \<open>
  \<^verbatim>\<open>int(s)\<close> for a string: surrounding whitespace is stripped, one sign is allowed,
  then decimal digits follow, where a single underscore may stand between two digits.
  Anything else is a \<^verbatim>\<open>ValueError\<close> (here \<open>None\<close>).
\<close>

definition isdigit :: "char \<Rightarrow> bool" where
  "isdigit c = (48 \<le> (of_char c :: nat) \<and> (of_char c :: nat) \<le> 57)"

definition digit_val :: "char \<Rightarrow> nat" where
  "digit_val c = of_char c - 48"

fun int_digits :: "nat \<Rightarrow> string \<Rightarrow> nat option" where
  "int_digits acc [] = Some acc"
| "int_digits acc [c] = (if isdigit c then Some (10 * acc + digit_val c) else None)"
| "int_digits acc (c # d # cs) =
     (if isdigit c then int_digits (10 * acc + digit_val c) (d # cs)
      else if c = CHR ''_'' \<and> isdigit d then int_digits (10 * acc + digit_val d) cs
      else None)"

definition int_unsigned :: "string \<Rightarrow> nat option" where
  "int_unsigned s = (case s of [] \<Rightarrow> None
     | c # cs \<Rightarrow> if isdigit c then int_digits (digit_val c) cs else None)"

definition py_int :: "string \<Rightarrow> int option" where
  "py_int s = (case strip s of [] \<Rightarrow> None
     | c # cs \<Rightarrow>
        if c = CHR ''-'' then map_option (\<lambda>n. - int n) (int_unsigned cs)
        else if c = CHR ''+'' then map_option int (int_unsigned cs)
        else map_option int (int_unsigned (c # cs)))"

section \<open>XML elements and their serialisation\<close>

text \<open>
  An \<^verbatim>\<open>xml.etree.ElementTree.Element\<close>: its tag, its attributes in order, the text
  before its first child (\<^verbatim>\<open>None\<close> when absent), the text after its end tag, and
  its children. Tags and attribute names are plain names without a namespace, as in
  the \<^verbatim>\<open>db.xml\<close> of Fantasy Grounds.
\<close>

datatype element =
  Element (tag: string) (attrib: "(string \<times> string) list")
          (etext: "string option") (etail: "string option") (children: "element list")

text \<open>Truth value of \<^verbatim>\<open>element.text\<close>: \<^verbatim>\<open>None\<close> and \<^verbatim>\<open>""\<close> are false.\<close>

definition truthy :: "string option \<Rightarrow> bool" where
  "truthy t = (case t of None \<Rightarrow> False | Some s \<Rightarrow> s \<noteq> [])"

text \<open>\<^verbatim>\<open>Element.find(name)\<close>: the first direct child with that tag.\<close>

definition find_child :: "string \<Rightarrow> element \<Rightarrow> element option" where
  "find_child name e = List.find (\<lambda>c. tag c = name) (children e)"

text \<open>
  \<^verbatim>\<open>ElementTree.tostring(child)\<close> with its default arguments (method \<^verbatim>\<open>xml\<close>,
  encoding \<^verbatim>\<open>us-ascii\<close>, short empty elements, no declaration), followed by
  \<^verbatim>\<open>bytes.decode()\<close>. The serialiser (\<^verbatim>\<open>_serialize_xml\<close> of Python 3.8, the
  interpreter the script names) escapes character data and attribute values, writes
  the element's tail after its end tag, and the ASCII codec replaces every code point
  above 127 by a numeric character reference.
\<close>

definition escape_cdata :: "string \<Rightarrow> string" where
  "escape_cdata s =
     replace_char CHR ''>'' ''&gt;'' (replace_char CHR ''<'' ''&lt;''
       (replace_char CHR ''&'' ''&amp;'' s))"

fun crlf_to_lf :: "string \<Rightarrow> string" where
  "crlf_to_lf [] = []"
| "crlf_to_lf [c] = (if c = CHR 0x0D then [CHR 0x0A] else [c])"
| "crlf_to_lf (c # d # cs) =
     (if c = CHR 0x0D \<and> d = CHR 0x0A then CHR 0x0A # crlf_to_lf cs
      else if c = CHR 0x0D then CHR 0x0A # crlf_to_lf (d # cs)
      else c # crlf_to_lf (d # cs))"

definition escape_attrib :: "string \<Rightarrow> string" where
  "escape_attrib s =
     replace_char CHR 0x09 ''&#09;'' (replace_char CHR 0x0A ''&#10;'' (crlf_to_lf
       (replace_char CHR 0x22 ''&quot;'' (replace_char CHR ''>'' ''&gt;''
         (replace_char CHR ''<'' ''&lt;'' (replace_char CHR ''&'' ''&amp;'' s))))))"

definition serialize_attrib :: "string \<times> string \<Rightarrow> string" where
  "serialize_attrib kv = '' '' @ fst kv @ ''='' @ [CHR 0x22] @ escape_attrib (snd kv) @ [CHR 0x22]"

definition cdata_of :: "string option \<Rightarrow> string" where
  "cdata_of t = (case t of None \<Rightarrow> [] | Some s \<Rightarrow> escape_cdata s)"

fun serialize_xml :: "element \<Rightarrow> string" where
  "serialize_xml (Element tg items tx tail cs) =
     (''<'' @ tg @ concat (map serialize_attrib items) @
      (if truthy tx \<or> cs \<noteq> []
       then ''>'' @ cdata_of tx @ concat (map serialize_xml cs) @ ''</'' @ tg @ ''>''
       else '' />'')) @
     cdata_of tail"

definition xmlcharrefreplace :: "string \<Rightarrow> string" where
  "xmlcharrefreplace s =
     concat (map (\<lambda>c. if (of_char c :: nat) < 128 then [c]
                       else ''&#'' @ dec_str (of_char c) @ '';'') s)"

definition tostring :: "element \<Rightarrow> string" where
  "tostring e = xmlcharrefreplace (serialize_xml e)"

section \<open>textify\<close>

text \<open>
  \<^verbatim>\<open>"".join(map(compose(strip, decode, tostring), filter(attrgetter("text"), element)))\<close>.
  Iterating an element yields its direct children; iterating \<^verbatim>\<open>None\<close> (a log
  element that \<^verbatim>\<open>find\<close> did not locate) raises \<^verbatim>\<open>TypeError\<close>.
\<close>

definition textify_child :: "element \<Rightarrow> string" where
  "textify_child c = strip (tostring c)"

definition textify_children :: "element list \<Rightarrow> string" where
  "textify_children cs = concat (map textify_child (filter (\<lambda>c. truthy (etext c)) cs))"

definition textify :: "element option \<Rightarrow> error + string" where
  "textify element = (case element of None \<Rightarrow> Inl TypeError
     | Some e \<Rightarrow> Inr (textify_children (children e)))"

section \<open>JSON values and \<^verbatim>\<open>json.dumps\<close>\<close>

text \<open>
  A Python dictionary keeps its keys in insertion order, and \<^verbatim>\<open>dumps\<close> prints them
  in that order, so a dictionary is an association list. \<open>JFloat\<close> carries the
  literal that \<^verbatim>\<open>dumps\<close> prints for a float.
\<close>

datatype json =
    JNull
  | JBool bool
  | JInt int
  | JFloat string
  | JStr string
  | JList "json list"
  | JObj "(string \<times> json) list"

text \<open>\<^verbatim>\<open>d[k]\<close> and \<^verbatim>\<open>d[k] = v\<close> on a dictionary.\<close>

definition dict_get :: "(string \<times> json) list \<Rightarrow> string \<Rightarrow> json option" where
  "dict_get d k = map_of d k"

fun dict_set :: "(string \<times> json) list \<Rightarrow> string \<Rightarrow> json \<Rightarrow> (string \<times> json) list" where
  "dict_set [] k v = [(k, v)]"
| "dict_set ((k', v') # d) k v = (if k' = k then (k, v) # d else (k', v') # dict_set d k v)"

text \<open>
  \<^verbatim>\<open>"{0:04x}".format(n)\<close> and \<^verbatim>\<open>"{0:08x}".format(n)\<close>: lowercase hexadecimal
  digits, padded with zeros on the left up to the width.
\<close>

fun hex_str :: "nat \<Rightarrow> string" where
  "hex_str n = (if n < 16 then [digit_char n] else hex_str (n div 16) @ [digit_char (n mod 16)])"

declare hex_str.simps [simp del]

definition format_0x :: "nat \<Rightarrow> nat \<Rightarrow> string" where
  "format_0x width n = replicate (width - length (hex_str n)) CHR ''0'' @ hex_str n"

text \<open>
  The string encoder of \<^verbatim>\<open>dumps\<close> with \<^verbatim>\<open>ensure_ascii=True\<close>: every character
  outside the range from space to tilde, the quote and the backslash are escaped.
\<close>

definition escape_json_char :: "char \<Rightarrow> string" where
  "escape_json_char c =
     (if c = CHR 0x5C then [CHR 0x5C, CHR 0x5C]
      else if c = CHR 0x22 then [CHR 0x5C, CHR 0x22]
      else if c = CHR 0x08 then [CHR 0x5C, CHR ''b'']
      else if c = CHR 0x0C then [CHR 0x5C, CHR ''f'']
      else if c = CHR 0x0A then [CHR 0x5C, CHR ''n'']
      else if c = CHR 0x0D then [CHR 0x5C, CHR ''r'']
      else if c = CHR 0x09 then [CHR 0x5C, CHR ''t'']
      else if 32 \<le> (of_char c :: nat) \<and> (of_char c :: nat) \<le> 126 then [c]
      else [CHR 0x5C, CHR ''u''] @ format_0x 4 (of_char c))"

definition dumps_str :: "string \<Rightarrow> string" where
  "dumps_str s = [CHR 0x22] @ concat (map escape_json_char s) @ [CHR 0x22]"

text \<open>\<^verbatim>\<open>", ".join(parts)\<close>.\<close>

fun join_comma :: "string list \<Rightarrow> string" where
  "join_comma [] = []"
| "join_comma [x] = x"
| "join_comma (x # y # ys) = x @ '', '' @ join_comma (y # ys)"

fun dumps :: "json \<Rightarrow> string" where
  "dumps JNull = ''null''"
| "dumps (JBool b) = (if b then ''true'' else ''false'')"
| "dumps (JInt i) = int_str i"
| "dumps (JFloat r) = r"
| "dumps (JStr s) = dumps_str s"
| "dumps (JList xs) = ''['' @ join_comma (map dumps xs) @ '']''"
| "dumps (JObj kvs) =
     ''{'' @ join_comma (map (\<lambda>kv. dumps_str (fst kv) @ '': '' @ dumps (snd kv)) kvs) @ ''}''"

section \<open>get_id\<close>

text \<open>
  The process-wide random source is the sequence of values that the successive calls
  \<^verbatim>\<open>randrange(0, 1 << 32)\<close> return: each is an unsigned 32-bit integer. A call takes
  the first value and leaves the rest.
\<close>

type_synonym rng = "nat \<Rightarrow> 32 word"

definition randrange_2_32 :: "rng \<Rightarrow> nat \<times> rng" where
  "randrange_2_32 g = (unat (g 0), \<lambda>i. g (Suc i))"

definition get_id :: "rng \<Rightarrow> string \<times> rng" where
  "get_id g = (let (n, g') = randrange_2_32 g in (format_0x 8 n, g'))"

section \<open>get_fvtt_entries\<close>

text \<open>
  \<^verbatim>\<open>int(fgu_entry.find(element).text)\<close>: \<^verbatim>\<open>AttributeError\<close> when the element is
  missing, \<^verbatim>\<open>TypeError\<close> when it has no text, \<^verbatim>\<open>ValueError\<close> when the text is not
  an integer literal.
\<close>

definition time_field :: "element \<Rightarrow> string \<Rightarrow> error + int" where
  "time_field fgu_entry name =
     (case find_child name fgu_entry of None \<Rightarrow> Inl AttributeError
      | Some el \<Rightarrow>
         (case etext el of None \<Rightarrow> Inl TypeError
          | Some s \<Rightarrow> (case py_int s of None \<Rightarrow> Inl ValueError | Some i \<Rightarrow> Inr i)))"

text \<open>The dictionary comprehension over \<^verbatim>\<open>["year", "month", "day"]\<close>, in that order.\<close>

fun time_fields :: "element \<Rightarrow> string list \<Rightarrow> error + (string \<times> json) list" where
  "time_fields fgu_entry [] = Inr []"
| "time_fields fgu_entry (name # names) =
     (case time_field fgu_entry name of Inl err \<Rightarrow> Inl err
      | Inr i \<Rightarrow>
         (case time_fields fgu_entry names of Inl err \<Rightarrow> Inl err
          | Inr d \<Rightarrow> Inr ((name, JInt i) # d)))"

type_synonym fvtt_entry = "(string \<times> json) list"

definition base_entry :: "string \<Rightarrow> (string \<times> json) list \<Rightarrow> fvtt_entry" where
  "base_entry author time =
     [(''author'', JStr author), (''repeats'', JInt 0), (''allDay'', JBool True),
      (''categories'', JList []), (''remindUsers'', JList []),
      (''endDate'', JObj ((''seconds'', JInt 0) # time))] @ time"

text \<open>
  The loop \<^verbatim>\<open>for is_public in (True, False)\<close> of the generator. The notes are
  collected in the order in which they are yielded; an exception ends the iteration,
  and the caller's \<^verbatim>\<open>list(...)\<close> then holds nothing.
\<close>

fun entries_loop ::
  "bool list \<Rightarrow> element \<Rightarrow> string \<Rightarrow> string \<Rightarrow> fvtt_entry \<Rightarrow> rng \<Rightarrow> error + (fvtt_entry list \<times> rng)" where
  "entries_loop [] fgu_entry public_title private_title base g = Inr ([], g)"
| "entries_loop (is_public # rest) fgu_entry public_title private_title base g =
     (case textify (find_child (if is_public then ''logentry'' else ''gmlogentry'') fgu_entry) of
        Inl err \<Rightarrow> Inl err
      | Inr content \<Rightarrow>
         if content = [] then entries_loop rest fgu_entry public_title private_title base g
         else
           (let (new_id, g') = get_id g;
                entry = [(''id'', JStr new_id), (''content'', JStr content),
                         (''playerVisible'', JBool is_public),
                         (''title'', JStr (if is_public then public_title else private_title)),
                         (''priority'', JInt (if is_public then 0 else 1))] @ base
            in (case entries_loop rest fgu_entry public_title private_title base g' of
                  Inl err \<Rightarrow> Inl err
                | Inr (entries, g'') \<Rightarrow> Inr (entry # entries, g''))))"

definition get_fvtt_entries ::
  "element \<Rightarrow> string \<Rightarrow> string \<Rightarrow> string \<Rightarrow> rng \<Rightarrow> error + (fvtt_entry list \<times> rng)" where
  "get_fvtt_entries fgu_entry public_title private_title author g =
     (case time_fields fgu_entry [''year'', ''month'', ''day''] of
        Inl err \<Rightarrow> Inl err
      | Inr ymd \<Rightarrow>
         (let time = ymd @ [(''hour'', JInt 0), (''minute'', JInt 0)]
          in entries_loop [True, False] fgu_entry public_title private_title
               (base_entry author time) g))"

section \<open>The main program\<close>

definition CAL_SETTINGS :: string where
  "CAL_SETTINGS = ''foundryvtt-simple-calendar.notes''"

text \<open>
  The files the program touches: the settings file \<^verbatim>\<open>args["fvtt"]\<close>, as the string of
  its characters, and the backups \<^verbatim>\<open><name>.bak.<index>\<close> that exist beside it, each
  index with its content.
\<close>

record files =
  fvtt :: string
  backups :: "(nat \<times> string) list"

text \<open>How a run ends: \<^verbatim>\<open>exit()\<close>, \<^verbatim>\<open>exit(message)\<close> or an exception nobody catches.\<close>

datatype outcome = Exit_clean | Exit_message string | Uncaught error

definition exit_code :: "outcome \<Rightarrow> nat" where
  "exit_code out = (case out of Exit_clean \<Rightarrow> 0 | Exit_message m \<Rightarrow> 1 | Uncaught err \<Rightarrow> 1)"

text \<open>
  \<^verbatim>\<open>while path.exists(f"{name}.bak.{index}"): index += 1\<close>, over the indices of the
  backups that exist.
\<close>

function backup_index :: "nat list \<Rightarrow> nat \<Rightarrow> nat" where
  "backup_index existing index =
     (if index \<in> set existing then backup_index existing (Suc index) else index)"
  by pat_completeness auto
termination
proof (relation "measure (\<lambda>(existing, index). length (filter (\<lambda>k. index \<le> k) existing))")
  show "wf (measure (\<lambda>(existing, index). length (filter (\<lambda>k. index \<le> k) existing)))"
    by simp
next
  fix existing :: "nat list" and index :: nat
  assume mem: "index \<in> set existing"
  have eq: "filter (\<lambda>k. Suc index \<le> k) existing =
            filter (\<lambda>k. Suc index \<le> k) (filter (\<lambda>k. index \<le> k) existing)"
    by (simp add: conj_commute) (rule filter_cong, auto)
  from mem have "index \<in> set (filter (\<lambda>k. index \<le> k) existing)"
    by simp
  then have "length (filter (\<lambda>k. Suc index \<le> k) (filter (\<lambda>k. index \<le> k) existing))
             < length (filter (\<lambda>k. index \<le> k) existing)"
    by (rule length_filter_less) simp
  with eq show "((existing, Suc index), (existing, index))
                \<in> measure (\<lambda>(existing, index). length (filter (\<lambda>k. index \<le> k) existing))"
    by simp
qed

declare backup_index.simps [simp del]

text \<open>\<^verbatim>\<open>copyfile(name, f"{name}.bak.{index}")\<close>.\<close>

definition make_backup :: "files \<Rightarrow> files" where
  "make_backup fs =
     (let index = backup_index (map fst (backups fs)) 0
      in fs\<lparr>backups := backups fs @ [(index, fvtt fs)]\<rparr>)"

text \<open>
  \<^verbatim>\<open>fgu_db_root.find("./calendar/log")\<close> is the first \<^verbatim>\<open>log\<close> child of a
  \<^verbatim>\<open>calendar\<close> child of the root, in document order; \<^verbatim>\<open>filter\<close> over \<^verbatim>\<open>None\<close>
  raises \<^verbatim>\<open>TypeError\<close>.
\<close>

definition find_calendar_log :: "element \<Rightarrow> element option" where
  "find_calendar_log root =
     (case concat (map (\<lambda>c. filter (\<lambda>l. tag l = ''log'') (children c))
                       (filter (\<lambda>c. tag c = ''calendar'') (children root))) of
        [] \<Rightarrow> None
      | l # _ \<Rightarrow> Some l)"

definition fgu_db_logs :: "element \<Rightarrow> error + element list" where
  "fgu_db_logs root =
     (case find_calendar_log root of None \<Rightarrow> Inl TypeError
      | Some log \<Rightarrow> Inr (filter (\<lambda>child. tag child \<noteq> ''public'') (children log)))"

text \<open>
  \<^verbatim>\<open>list(chain.from_iterable(map(converter, fgu_db_logs)))\<close>: the entries are converted
  in order, each drawing its identifiers from the random source the previous one left;
  the first exception ends the run of the list.
\<close>

fun fvtt_entries ::
  "element list \<Rightarrow> string \<Rightarrow> string \<Rightarrow> string \<Rightarrow> rng \<Rightarrow> error + (fvtt_entry list \<times> rng)" where
  "fvtt_entries [] public_title private_title author g = Inr ([], g)"
| "fvtt_entries (fgu_entry # rest) public_title private_title author g =
     (case get_fvtt_entries fgu_entry public_title private_title author g of
        Inl err \<Rightarrow> Inl err
      | Inr (entries, g') \<Rightarrow>
         (case fvtt_entries rest public_title private_title author g' of
            Inl err \<Rightarrow> Inl err
          | Inr (others, g'') \<Rightarrow> Inr (entries @ others, g'')))"

text \<open>\<^verbatim>\<open>xs[i]\<close> for a list and a non-negative index.\<close>

definition list_getitem :: "'a list \<Rightarrow> nat \<Rightarrow> error + 'a" where
  "list_getitem xs i = (if i < length xs then Inr (xs ! i) else Inl IndexError)"

text \<open>
  \<^verbatim>\<open>readlines()\<close> of a file opened in text mode: a line ends at a line feed, a carriage
  return or the pair of them, each read as one line feed; the last line may lack it.
\<close>

fun readlines_from :: "string \<Rightarrow> string \<Rightarrow> string list" where
  "readlines_from cur [] = (if cur = [] then [] else [cur])"
| "readlines_from cur [c] =
     (if c = CHR 0x0D \<or> c = CHR 0x0A then [cur @ [CHR 0x0A]] else [cur @ [c]])"
| "readlines_from cur (c # d # cs) =
     (if c = CHR 0x0D \<and> d = CHR 0x0A then (cur @ [CHR 0x0A]) # readlines_from [] cs
      else if c = CHR 0x0D \<or> c = CHR 0x0A then (cur @ [CHR 0x0A]) # readlines_from [] (d # cs)
      else readlines_from (cur @ [c]) (d # cs))"

definition readlines :: "string \<Rightarrow> string list" where
  "readlines content = readlines_from [] content"

text \<open>\<^verbatim>\<open>payload["key"]\<close> and \<^verbatim>\<open>payload["value"] = v\<close> on a decoded JSON value.\<close>

definition json_getitem :: "json \<Rightarrow> string \<Rightarrow> error + json" where
  "json_getitem payload k =
     (case payload of
        JObj d \<Rightarrow> (case dict_get d k of None \<Rightarrow> Inl KeyError | Some v \<Rightarrow> Inr v)
      | _ \<Rightarrow> Inl TypeError)"

definition json_setitem :: "json \<Rightarrow> string \<Rightarrow> json \<Rightarrow> error + json" where
  "json_setitem payload k v =
     (case payload of JObj d \<Rightarrow> Inr (JObj (dict_set d k v)) | _ \<Rightarrow> Inl TypeError)"

text \<open>
  The \<^verbatim>\<open>for ... else\<close> loop over the lines. \<^verbatim>\<open>json.loads\<close> is a parameter: it maps
  a line to the value it decodes to, or to the exception it raises. The result is the
  number and the payload of the first line whose key is \<^verbatim>\<open>CAL_SETTINGS\<close>, or
  \<open>None\<close> when the loop runs to its \<^verbatim>\<open>else\<close>.
\<close>

fun find_settings ::
  "(string \<Rightarrow> error + json) \<Rightarrow> string list \<Rightarrow> nat \<Rightarrow> error + (nat \<times> json) option" where
  "find_settings loads [] line_number = Inr None"
| "find_settings loads (line # rest) line_number =
     (case loads (strip line) of Inl err \<Rightarrow> Inl err
      | Inr payload \<Rightarrow>
         (case json_getitem payload ''key'' of Inl err \<Rightarrow> Inl err
          | Inr k \<Rightarrow>
             if k = JStr CAL_SETTINGS then Inr (Some (line_number, payload))
             else find_settings loads rest (Suc line_number)))"

text \<open>
  \<^verbatim>\<open>seek(0)\<close> and \<^verbatim>\<open>writelines(lines)\<close>: the new characters replace the old ones from
  the start of the file. The statement \<^verbatim>\<open>args["fvtt"].truncate\<close> names the method
  and does not call it, so what the old content holds beyond the new one stays.
\<close>

definition overwrite :: "string \<Rightarrow> string list \<Rightarrow> string" where
  "overwrite old lines = concat lines @ drop (length (concat lines)) old"

text \<open>
  The program after \<^verbatim>\<open>parse_args\<close>. \<open>fgu\<close> is the root that \<^verbatim>\<open>ElementTree.parse\<close>
  returns, \<open>None\<close> when it raises. What the program prints is not part of the result.
\<close>

definition main ::
  "(string \<Rightarrow> error + json) \<Rightarrow> string \<Rightarrow> string \<Rightarrow> string \<Rightarrow> element option \<Rightarrow> rng \<Rightarrow> files
     \<Rightarrow> outcome \<times> files" where
  "main loads author public_title private_title fgu g fs0 =
     (let fs = make_backup fs0 in
      case fgu of None \<Rightarrow> (Uncaught XMLSyntaxError, fs)
      | Some fgu_db_root \<Rightarrow>
      (case fgu_db_logs fgu_db_root of Inl err \<Rightarrow> (Uncaught err, fs)
       | Inr logs \<Rightarrow>
       (case fvtt_entries logs public_title private_title author g of
          Inl err \<Rightarrow> (Uncaught err, fs)
        | Inr (entries, g') \<Rightarrow>
        (case list_getitem entries 50 of Inl err \<Rightarrow> (Uncaught err, fs)
         | Inr printed \<Rightarrow>
         (let lines = readlines (fvtt fs) in
          case find_settings loads lines 0 of Inl err \<Rightarrow> (Uncaught err, fs)
          | Inr None \<Rightarrow> (Exit_message (''Failed to find settings: '' @ CAL_SETTINGS), fs)
          | Inr (Some (line_number, payload)) \<Rightarrow>
            (case json_setitem payload ''value'' (JStr (dumps (JList (map JObj entries)))) of
               Inl err \<Rightarrow> (Uncaught err, fs)
             | Inr payload' \<Rightarrow>
               (let lines' = lines[line_number := dumps payload' @ [CHR 0x0A]]
                in (Exit_clean, fs\<lparr>fvtt := overwrite (fvtt fs) lines'\<rparr>))))))))"

section \<open>Comparing the entries of two runs\<close>

text \<open>An entry without its \<^verbatim>\<open>id\<close> field, the other fields in their order.\<close>

definition without_id :: "fvtt_entry \<Rightarrow> fvtt_entry" where
  "without_id entry = filter (\<lambda>kv. fst kv \<noteq> ''id'') entry"

text \<open>
  Two results of a conversion agree up to identifiers: both raise the same exception,
  or both return entries that are equal once the \<^verbatim>\<open>id\<close> fields are removed.
\<close>

definition same_except_id ::
  "error + (fvtt_entry list \<times> rng) \<Rightarrow> error + (fvtt_entry list \<times> rng) \<Rightarrow> bool" where
  "same_except_id r1 r2 =
     (case r1 of
        Inl e1 \<Rightarrow> (case r2 of Inl e2 \<Rightarrow> e1 = e2 | Inr _ \<Rightarrow> False)
      | Inr p1 \<Rightarrow> (case r2 of Inl _ \<Rightarrow> False
                    | Inr p2 \<Rightarrow> map without_id (fst p1) = map without_id (fst p2)))"

section \<open>Example inputs\<close>

text \<open>Small documents on which the theorems below are run.\<close>

definition example_nested_only :: element where
  "example_nested_only = Element ''p'' [] None None [Element ''b'' [] (Some ''bold'') None []]"

definition example_blank :: element where
  "example_blank = Element ''p'' [] (Some '' '') None []"

definition example_with_tail :: element where
  "example_with_tail = Element ''p'' [] (Some ''Hi'') (Some '' after  '') []"

text \<open>A log entry as \<^verbatim>\<open>db.xml\<close> holds it, with the given paragraphs in its two blocks.\<close>

definition example_number :: "string \<Rightarrow> string \<Rightarrow> element" where
  "example_number name v = Element name [(''type'', ''number'')] (Some v) None []"

definition example_block :: "string \<Rightarrow> element list \<Rightarrow> element" where
  "example_block name ps =
     Element name [(''type'', ''formattedtext'')] (Some [CHR 0x0A, CHR 0x09]) None ps"

definition example_p :: "string \<Rightarrow> element" where
  "example_p s = Element ''p'' [] (Some s) (Some [CHR 0x0A, CHR 0x09]) []"

definition example_p_empty :: element where
  "example_p_empty = Element ''p'' [] None (Some [CHR 0x0A, CHR 0x09]) []"

definition example_entry :: "string \<Rightarrow> element list \<Rightarrow> element list \<Rightarrow> element" where
  "example_entry year pub priv = Element ''id-00134'' [] None None
     [Element ''public'' [] None None [], example_number ''day'' ''9'',
      example_block ''gmlogentry'' priv, example_block ''logentry'' pub,
      example_number ''month'' ''1'',
      Element ''name'' [(''type'', ''string'')] (Some ''9th Abadius, 4721 '') None [],
      example_number ''year'' year]"

definition example_both :: element where
  "example_both = example_entry ''4721''
     [example_p ''Returned to Elesomare.''] [example_p ''Left Karina in Elesomare.'']"

definition example_private_only :: element where
  "example_private_only = example_entry ''4721''
     [example_p_empty] [example_p ''Left Karina in Elesomare.'']"

definition example_public_only :: element where
  "example_public_only = example_entry ''4721'' [example_p ''x''] [example_p_empty]"

definition example_empty :: element where
  "example_empty = example_entry ''4721'' [example_p_empty] [example_p_empty]"

definition example_bad_year :: element where
  "example_bad_year = example_entry ''4721 AR'' [example_p ''x''] [example_p_empty]"

definition example_ymd :: "(string \<times> json) list" where
  "example_ymd = [(''year'', JInt 4721), (''month'', JInt 1), (''day'', JInt 9)]"

definition example_root :: "element list \<Rightarrow> element" where
  "example_root logs = Element ''root'' [(''version'', ''4'')] None None
     [Element ''calendar'' [] None None
        [Element ''log'' [] None None (Element ''public'' [] None None [] # logs)]]"

definition example_logs51 :: "element list" where
  "example_logs51 = replicate 51 example_public_only"

definition example_rng :: rng where
  "example_rng = (\<lambda>i. 0x142f4260 + word_of_nat i)"

definition example_rng_other :: rng where
  "example_rng_other = (\<lambda>i. 7)"

text \<open>
  A settings file of one line that holds another key, and a decoder that knows the
  lines of the examples.
\<close>

definition example_time_payload :: json where
  "example_time_payload = JObj [(''key'', JStr ''core.time''), (''value'', JStr ''0'')]"

definition example_files_without_key :: files where
  "example_files_without_key =
     \<lparr>fvtt = dumps example_time_payload @ [CHR 0x0A], backups = [(0, ''{}'')]\<rparr>"

definition example_settings_payload :: json where
  "example_settings_payload =
     JObj [(''key'', JStr CAL_SETTINGS), (''value'', JStr (replicate 200000 CHR ''x''))]"

definition example_files :: files where
  "example_files = \<lparr>fvtt = dumps example_settings_payload @ [CHR 0x0A], backups = []\<rparr>"

definition example_loads :: "string \<Rightarrow> error + json" where
  "example_loads s =
     (if s = dumps example_time_payload then Inr example_time_payload
      else if s = dumps example_settings_payload then Inr example_settings_payload
      else Inl JSONDecodeError)"

section \<open>Whitespace stripping and serialisation\<close>

lemma lstrip_Cons: "\<not> isspace c \<Longrightarrow> lstrip (c # s) = c # s"
  by (simp add: lstrip_def)

lemma rstrip_snoc_append: "\<not> isspace c \<Longrightarrow> rstrip (a @ c # b) = a @ c # rstrip b"
  by (simp add: rstrip_def dropWhile_append)

lemma rstrip_nonempty_iff: "rstrip s \<noteq> [] \<longleftrightarrow> (\<exists>c\<in>set s. \<not> isspace c)"
  by (auto simp: rstrip_def dropWhile_eq_Nil_conv)

lemma xmlcharrefreplace_append:
  "xmlcharrefreplace (a @ b) = xmlcharrefreplace a @ xmlcharrefreplace b"
  by (simp add: xmlcharrefreplace_def)

lemma serialize_xml_tail:
  "serialize_xml (Element tg items tx tail cs) =
     serialize_xml (Element tg items tx None cs) @ cdata_of tail"
  by (simp add: cdata_of_def)

lemma serialize_xml_brackets:
  "\<exists>m. serialize_xml (Element tg items tx None cs) = CHR ''<'' # m @ ''>''"
  by (simp add: cdata_of_def)

lemma tostring_tail:
  "tostring (Element tg items tx tail cs) =
     tostring (Element tg items tx None cs) @ xmlcharrefreplace (cdata_of tail)"
  unfolding tostring_def
  by (subst serialize_xml_tail) (simp only: xmlcharrefreplace_append)

lemma tostring_brackets:
  "\<exists>m. tostring (Element tg items tx None cs) = CHR ''<'' # m @ ''>''"
proof -
  obtain m where "serialize_xml (Element tg items tx None cs) = CHR ''<'' # m @ ''>''"
    using serialize_xml_brackets by blast
  then have "tostring (Element tg items tx None cs) = CHR ''<'' # xmlcharrefreplace m @ ''>''"
    by (simp add: tostring_def xmlcharrefreplace_def)
  then show ?thesis by blast
qed

lemma not_isspace_lt: "\<not> isspace CHR ''<''"
  by (simp add: isspace_def)

lemma not_isspace_gt: "\<not> isspace CHR ''>''"
  by (simp add: isspace_def)

lemma textify_child_tail:
  "textify_child (Element tg items tx tail cs) =
     tostring (Element tg items tx None cs) @ rstrip (xmlcharrefreplace (cdata_of tail))"
proof -
  obtain m where m: "tostring (Element tg items tx None cs) = CHR ''<'' # m @ ''>''"
    using tostring_brackets by blast
  have "strip (CHR ''<'' # m @ CHR ''>'' # t) = CHR ''<'' # m @ CHR ''>'' # rstrip t" for t
    using rstrip_snoc_append [of "CHR ''>''" "CHR ''<'' # m" t]
    by (simp add: strip_def lstrip_Cons not_isspace_lt not_isspace_gt)
  then show ?thesis
    by (simp add: textify_child_def tostring_tail [of tg items tx tail cs] m)
qed

lemma textify_child_nonempty: "textify_child c \<noteq> []"
proof (cases c)
  case (Element tg items tx tail cs)
  obtain m where "tostring (Element tg items tx None cs) = CHR ''<'' # m @ ''>''"
    using tostring_brackets by blast
  then show ?thesis
    by (simp add: Element textify_child_tail)
qed

lemma textify_children_append:
  "textify_children (xs @ ys) = textify_children xs @ textify_children ys"
  by (simp add: textify_children_def)

lemma textify_children_Cons:
  "textify_children (c # ys) =
     (if truthy (etext c) then textify_child c @ textify_children ys else textify_children ys)"
  by (simp add: textify_children_def)

lemma truthy_iff: "truthy t \<longleftrightarrow> t \<noteq> None \<and> t \<noteq> Some []"
  by (simp add: truthy_def split: option.splits)

lemma replace_char_keeps_visible:
  assumes "\<exists>x\<in>set s. \<not> isspace x" and "\<exists>x\<in>set r. \<not> isspace x"
  shows "\<exists>x\<in>set (replace_char c r s). \<not> isspace x"
  using assms by (auto simp: replace_char_def)

lemma escape_cdata_keeps_visible:
  assumes "\<exists>x\<in>set s. \<not> isspace x"
  shows "\<exists>x\<in>set (escape_cdata s). \<not> isspace x"
  unfolding escape_cdata_def
  by (intro replace_char_keeps_visible assms) (simp_all add: isspace_def)

lemma xmlcharrefreplace_keeps_visible:
  assumes "\<exists>x\<in>set s. \<not> isspace x"
  shows "\<exists>x\<in>set (xmlcharrefreplace s). \<not> isspace x"
proof -
  from assms obtain x where x: "x \<in> set s" "\<not> isspace x" by blast
  show ?thesis
  proof (cases "(of_char x :: nat) < 128")
    case True
    with x show ?thesis by (auto simp: xmlcharrefreplace_def)
  next
    case False
    have "\<not> isspace CHR ''&''" by (simp add: isspace_def)
    with x False show ?thesis
      unfolding xmlcharrefreplace_def set_concat set_map
      by (intro bexI [of _ "CHR ''&''"]) auto
  qed
qed

section \<open>Properties of textify\<close>

text \<open>
  C6. \<^verbatim>\<open>textify\<close> skips a direct child exactly when the child's own text is
  \<^verbatim>\<open>None\<close> or the empty string. A skipped child adds nothing to the result, whatever
  markup is nested in it; a child that is not skipped adds its stripped serialisation,
  which is never empty. A text of whitespace only is not the empty string, so such a
  child is not skipped.
\<close>

theorem textify_skips_iff_text_empty:
  "(textify_children (xs @ c # ys) = textify_children (xs @ ys)
      \<longleftrightarrow> etext c = None \<or> etext c = Some [])
   \<and> (etext c = None \<or> etext c = Some [] \<longrightarrow>
        textify_children (xs @ c # ys) = textify_children (xs @ ys))
   \<and> (etext c \<noteq> None \<and> etext c \<noteq> Some [] \<longrightarrow>
        textify_children (xs @ c # ys) =
          textify_children xs @ textify_child c @ textify_children ys
        \<and> textify_child c \<noteq> [])"
  using textify_child_nonempty [of c]
  by (auto simp: textify_children_append textify_children_Cons truthy_iff)

theorem textify_skips_iff_text_empty_witness:
  "textify_children ([] @ example_nested_only # []) = textify_children ([] @ [])
   \<and> textify_children ([] @ example_blank # []) =
       textify_children [] @ textify_child example_blank @ textify_children []
   \<and> textify_child example_blank = ''<p> </p>''
   \<and> textify (Some (Element ''logentry'' [] None None [example_nested_only, example_blank]))
       = Inr ''<p> </p>''"
proof -
  have skipped: "textify_children ([] @ example_nested_only # []) = textify_children ([] @ [])"
    using textify_skips_iff_text_empty [of "[]" example_nested_only "[]"]
    by (simp add: example_nested_only_def)
  have kept: "textify_children ([] @ example_blank # []) =
       textify_children [] @ textify_child example_blank @ textify_children []"
    using textify_skips_iff_text_empty [of "[]" example_blank "[]"]
    by (simp add: example_blank_def)
  have child: "textify_child example_blank = ''<p> </p>''"
    by code_simp
  have whole: "textify (Some (Element ''logentry'' [] None None
                 [example_nested_only, example_blank])) = Inr ''<p> </p>''"
    by code_simp
  from skipped kept child whole show ?thesis by blast
qed

text \<open>
  C10. For a child that is not skipped, \<^verbatim>\<open>tostring\<close> writes the child's tail after
  its end tag, and \<^verbatim>\<open>strip\<close> then removes only the whitespace at the end of that tail
  (the serialisation starts with \<open><\<close>). So the fragment of the child is its markup
  followed by the escaped tail without trailing whitespace, and a tail holding a visible
  character always adds to the content.
\<close>

theorem textify_includes_child_tail:
  assumes "truthy tx"
  shows "textify_children (xs @ Element tg items tx tail cs # ys) =
           textify_children xs
           @ (tostring (Element tg items tx None cs) @ rstrip (xmlcharrefreplace (cdata_of tail)))
           @ textify_children ys
         \<and> (\<forall>t. tail = Some t \<and> (\<exists>x\<in>set t. \<not> isspace x) \<longrightarrow>
               rstrip (xmlcharrefreplace (cdata_of tail)) \<noteq> [])"
proof
  show "textify_children (xs @ Element tg items tx tail cs # ys) =
           textify_children xs
           @ (tostring (Element tg items tx None cs) @ rstrip (xmlcharrefreplace (cdata_of tail)))
           @ textify_children ys"
    using assms
    by (simp add: textify_children_append textify_children_Cons textify_child_tail)
next
  show "\<forall>t. tail = Some t \<and> (\<exists>x\<in>set t. \<not> isspace x) \<longrightarrow>
               rstrip (xmlcharrefreplace (cdata_of tail)) \<noteq> []"
  proof (intro allI impI, elim conjE)
    fix t
    assume t: "tail = Some t" and vis: "\<exists>x\<in>set t. \<not> isspace x"
    from vis have "\<exists>x\<in>set (xmlcharrefreplace (escape_cdata t)). \<not> isspace x"
      by (intro xmlcharrefreplace_keeps_visible escape_cdata_keeps_visible)
    then show "rstrip (xmlcharrefreplace (cdata_of tail)) \<noteq> []"
      by (simp add: t cdata_of_def rstrip_nonempty_iff)
  qed
qed

theorem textify_includes_child_tail_witness:
  "truthy (Some ''Hi'')
   \<and> textify_children ([] @ Element ''p'' [] (Some ''Hi'') (Some '' after  '') [] # []) =
       textify_children []
       @ (tostring (Element ''p'' [] (Some ''Hi'') None [])
          @ rstrip (xmlcharrefreplace (cdata_of (Some '' after  ''))))
       @ textify_children []
   \<and> textify (Some (Element ''logentry'' [] None None [example_with_tail])) = Inr ''<p>Hi</p> after''"
proof -
  have h: "truthy (Some ''Hi'')"
    by (simp add: truthy_def)
  have eq: "textify_children ([] @ Element ''p'' [] (Some ''Hi'') (Some '' after  '') [] # []) =
       textify_children []
       @ (tostring (Element ''p'' [] (Some ''Hi'') None [])
          @ rstrip (xmlcharrefreplace (cdata_of (Some '' after  ''))))
       @ textify_children []"
    using textify_includes_child_tail [OF h, of "[]" "''p''" "[]" "Some '' after  ''" "[]" "[]"]
    by blast
  have whole: "textify (Some (Element ''logentry'' [] None None [example_with_tail]))
                 = Inr ''<p>Hi</p> after''"
    by code_simp
  from h eq whole show ?thesis by blast
qed

section \<open>Evaluating the examples\<close>

lemmas textify_defs = textify_def find_child_def textify_children_def textify_child_def
  truthy_def tostring_def xmlcharrefreplace_def cdata_of_def escape_cdata_def replace_char_def
  strip_def lstrip_def rstrip_def isspace_def serialize_attrib_def escape_attrib_def

lemmas int_defs = time_field_def find_child_def py_int_def int_unsigned_def isdigit_def
  digit_val_def strip_def lstrip_def rstrip_def isspace_def

lemmas hex_defs = format_0x_def hex_str.simps digit_char_def

lemma example_time_fields:
  "time_fields (example_entry ''4721'' pub priv) [''year'', ''month'', ''day''] = Inr example_ymd"
  by (simp add: example_entry_def example_number_def example_block_def example_ymd_def int_defs)

lemma example_textify_public:
  "textify (find_child ''logentry'' (example_entry y pub priv)) = Inr (textify_children pub)"
  by (simp add: example_entry_def example_number_def example_block_def textify_def find_child_def)

lemma example_textify_private:
  "textify (find_child ''gmlogentry'' (example_entry y pub priv)) = Inr (textify_children priv)"
  by (simp add: example_entry_def example_number_def example_block_def textify_def find_child_def)

lemma example_textify_empty: "textify_children [example_p_empty] = []"
  by (simp add: example_p_empty_def textify_defs)

lemma example_textify_returned:
  "textify_children [example_p ''Returned to Elesomare.''] = ''<p>Returned to Elesomare.</p>''"
  by (simp add: example_p_def textify_defs)

lemma example_textify_left:
  "textify_children [example_p ''Left Karina in Elesomare.''] = ''<p>Left Karina in Elesomare.</p>''"
  by (simp add: example_p_def textify_defs)

lemma example_textify_x: "textify_children [example_p ''x''] = ''<p>x</p>''"
  by (simp add: example_p_def textify_defs)

lemma example_fgu_db_logs:
  "fgu_db_logs (example_root logs) = Inr (filter (\<lambda>child. tag child \<noteq> ''public'') logs)"
  by (simp add: example_root_def fgu_db_logs_def find_calendar_log_def)

lemma example_entry_tag: "tag (example_entry y pub priv) = ''id-00134''"
  by (simp add: example_entry_def)

section \<open>Properties of get_fvtt_entries\<close>

lemma get_fvtt_entries_unfold:
  assumes "time_fields e [''year'', ''month'', ''day''] = Inr ymd"
    and "textify (find_child ''logentry'' e) = Inr a"
    and "textify (find_child ''gmlogentry'' e) = Inr b"
  shows "get_fvtt_entries e pt prt au g =
     (let base = base_entry au (ymd @ [(''hour'', JInt 0), (''minute'', JInt 0)]);
          pub = (\<lambda>w. [(''id'', JStr (format_0x 8 (unat w))), (''content'', JStr a),
                       (''playerVisible'', JBool True), (''title'', JStr pt),
                       (''priority'', JInt 0)] @ base);
          priv = (\<lambda>w. [(''id'', JStr (format_0x 8 (unat w))), (''content'', JStr b),
                        (''playerVisible'', JBool False), (''title'', JStr prt),
                        (''priority'', JInt 1)] @ base)
      in if a = [] then (if b = [] then Inr ([], g) else Inr ([priv (g 0)], \<lambda>i. g (Suc i)))
         else if b = [] then Inr ([pub (g 0)], \<lambda>i. g (Suc i))
         else Inr ([pub (g 0), priv (g (Suc 0))], \<lambda>i. g (Suc (Suc i))))"
  using assms by (simp add: get_fvtt_entries_def Let_def get_id_def randrange_2_32_def)

lemma get_fvtt_entries_time_error:
  "time_fields e [''year'', ''month'', ''day''] = Inl err \<Longrightarrow>
   get_fvtt_entries e pt prt a g = Inl err"
  by (simp add: get_fvtt_entries_def)

lemma time_field_errors:
  "time_field e name = Inl err \<Longrightarrow> err \<in> {AttributeError, TypeError, ValueError}"
  by (auto simp: time_field_def split: option.splits)

lemma time_fields_errors:
  "time_fields e names = Inl err \<Longrightarrow> err \<in> {AttributeError, TypeError, ValueError}"
  by (induction names arbitrary: err) (auto split: sum.splits dest: time_field_errors)

lemma time_fields_fail:
  "name \<in> set names \<Longrightarrow> time_field e name = Inl err \<Longrightarrow> \<exists>err'. time_fields e names = Inl err'"
  by (induction names) (auto split: sum.splits)

lemma fvtt_entries_single:
  "fvtt_entries [e] pt prt a g = get_fvtt_entries e pt prt a g"
  by (cases "get_fvtt_entries e pt prt a g") auto

lemma example_both_entries:
  "\<exists>pub priv. get_fvtt_entries example_both pt prt au g
       = Inr ([pub, priv], \<lambda>i. g (Suc (Suc i)))
     \<and> dict_get pub ''id'' = Some (JStr (format_0x 8 (unat (g 0))))
     \<and> dict_get priv ''id'' = Some (JStr (format_0x 8 (unat (g (Suc 0)))))"
  unfolding example_both_def
  by (simp add: get_fvtt_entries_unfold [OF example_time_fields example_textify_public
        example_textify_private] example_textify_returned example_textify_left Let_def
        dict_get_def)

text \<open>
  C1. An entry whose year, month and day convert (the invariant of a source entry) and
  whose two blocks both render to non-empty text yields exactly two entries, the public
  one first: \<^verbatim>\<open>priority\<close> 0 then 1, \<^verbatim>\<open>playerVisible\<close> true then false, each with the
  text of its block, and with the same \<^verbatim>\<open>year\<close>, \<^verbatim>\<open>month\<close>, \<^verbatim>\<open>day\<close>, \<^verbatim>\<open>author\<close>
  and \<^verbatim>\<open>endDate\<close>.
\<close>

theorem split_entry_both_blocks:
  assumes "time_fields fgu_entry [''year'', ''month'', ''day''] = Inr ymd"
    and "textify (find_child ''logentry'' fgu_entry) = Inr public_text" and "public_text \<noteq> []"
    and "textify (find_child ''gmlogentry'' fgu_entry) = Inr private_text" and "private_text \<noteq> []"
  shows "\<exists>pub priv g'.
           get_fvtt_entries fgu_entry public_title private_title author g = Inr ([pub, priv], g')
         \<and> dict_get pub ''playerVisible'' = Some (JBool True)
         \<and> dict_get priv ''playerVisible'' = Some (JBool False)
         \<and> dict_get pub ''content'' = Some (JStr public_text)
         \<and> dict_get priv ''content'' = Some (JStr private_text)
         \<and> dict_get pub ''priority'' = Some (JInt 0)
         \<and> dict_get priv ''priority'' = Some (JInt 1)
         \<and> (\<forall>k\<in>{''year'', ''month'', ''day'', ''author'', ''endDate''}.
               dict_get pub k = dict_get priv k \<and> dict_get pub k \<noteq> None)"
proof -
  from assms(1) obtain y m d where
    ymd: "ymd = [(''year'', JInt y), (''month'', JInt m), (''day'', JInt d)]"
    by (auto split: sum.splits)
  show ?thesis
    using assms
    by (simp add: get_fvtt_entries_def dict_get_def Let_def base_entry_def ymd split: prod.splits)
qed

theorem split_entry_both_blocks_witness:
  "time_fields example_both [''year'', ''month'', ''day''] = Inr example_ymd
   \<and> textify (find_child ''logentry'' example_both) = Inr ''<p>Returned to Elesomare.</p>''
   \<and> textify (find_child ''gmlogentry'' example_both) = Inr ''<p>Left Karina in Elesomare.</p>''
   \<and> (\<exists>pub priv g'.
         get_fvtt_entries example_both ''Journal'' ''Notes'' ''zph8yxjDa80f9VnL'' example_rng
           = Inr ([pub, priv], g')
       \<and> dict_get pub ''priority'' = Some (JInt 0)
       \<and> dict_get priv ''priority'' = Some (JInt 1)
       \<and> dict_get pub ''endDate'' = dict_get priv ''endDate'')"
proof -
  have ymd: "time_fields example_both [''year'', ''month'', ''day''] = Inr example_ymd"
    unfolding example_both_def by (rule example_time_fields)
  have pub: "textify (find_child ''logentry'' example_both) = Inr ''<p>Returned to Elesomare.</p>''"
    by (simp add: example_both_def example_textify_public example_textify_returned)
  have priv: "textify (find_child ''gmlogentry'' example_both) = Inr ''<p>Left Karina in Elesomare.</p>''"
    by (simp add: example_both_def example_textify_private example_textify_left)
  have ne: "''<p>Returned to Elesomare.</p>'' \<noteq> []" "''<p>Left Karina in Elesomare.</p>'' \<noteq> []"
    by simp_all
  from split_entry_both_blocks [OF ymd pub ne(1) priv ne(2), where public_title = "''Journal''"
      and private_title = "''Notes''" and author = "''zph8yxjDa80f9VnL''" and g = example_rng]
  obtain pub_entry priv_entry g' where
    run: "get_fvtt_entries example_both ''Journal'' ''Notes'' ''zph8yxjDa80f9VnL'' example_rng
            = Inr ([pub_entry, priv_entry], g')"
    and prio: "dict_get pub_entry ''priority'' = Some (JInt 0)"
      "dict_get priv_entry ''priority'' = Some (JInt 1)"
    and shared: "\<forall>k\<in>{''year'', ''month'', ''day'', ''author'', ''endDate''}.
               dict_get pub_entry k = dict_get priv_entry k \<and> dict_get pub_entry k \<noteq> None"
    by blast
  from shared have "dict_get pub_entry ''endDate'' = dict_get priv_entry ''endDate''"
    by simp
  with ymd pub priv run prio show ?thesis by blast
qed

text \<open>
  C2. When both blocks render to the empty text, the entry yields no entry at all (and
  leaves the random source as it was). In general every entry that is yielded has a
  non-empty \<^verbatim>\<open>content\<close>, and a block that renders to the empty text yields no entry
  of its visibility.
\<close>

theorem split_entry_both_empty:
  "(textify (find_child ''logentry'' fgu_entry) = Inr []
      \<and> textify (find_child ''gmlogentry'' fgu_entry) = Inr []
      \<and> time_fields fgu_entry [''year'', ''month'', ''day''] = Inr ymd
    \<longrightarrow> get_fvtt_entries fgu_entry public_title private_title author g = Inr ([], g))
   \<and> (\<forall>entries g'.
         get_fvtt_entries fgu_entry public_title private_title author g = Inr (entries, g') \<longrightarrow>
           (\<forall>entry\<in>set entries.
              \<exists>content. dict_get entry ''content'' = Some (JStr content) \<and> content \<noteq> [])
         \<and> (textify (find_child ''logentry'' fgu_entry) = Inr [] \<longrightarrow>
               (\<forall>entry\<in>set entries. dict_get entry ''playerVisible'' = Some (JBool False)))
         \<and> (textify (find_child ''gmlogentry'' fgu_entry) = Inr [] \<longrightarrow>
               (\<forall>entry\<in>set entries. dict_get entry ''playerVisible'' = Some (JBool True))))"
  by (auto simp: get_fvtt_entries_def dict_get_def Let_def split: sum.splits if_splits prod.splits)

theorem split_entry_both_empty_witness:
  "textify (find_child ''logentry'' example_empty) = Inr []
   \<and> textify (find_child ''gmlogentry'' example_empty) = Inr []
   \<and> time_fields example_empty [''year'', ''month'', ''day''] = Inr example_ymd
   \<and> get_fvtt_entries example_empty ''Journal'' ''Notes'' ''zph8yxjDa80f9VnL'' example_rng
       = Inr ([], example_rng)
   \<and> (\<exists>entry g'.
         get_fvtt_entries example_private_only ''Journal'' ''Notes'' ''zph8yxjDa80f9VnL'' example_rng
           = Inr ([entry], g')
       \<and> (\<exists>content. dict_get entry ''content'' = Some (JStr content) \<and> content \<noteq> [])
       \<and> dict_get entry ''playerVisible'' = Some (JBool False))"
proof -
  have pub: "textify (find_child ''logentry'' example_empty) = Inr []"
    by (simp add: example_empty_def example_textify_public example_textify_empty)
  have priv: "textify (find_child ''gmlogentry'' example_empty) = Inr []"
    by (simp add: example_empty_def example_textify_private example_textify_empty)
  have ymd: "time_fields example_empty [''year'', ''month'', ''day''] = Inr example_ymd"
    unfolding example_empty_def by (rule example_time_fields)
  have none: "get_fvtt_entries example_empty ''Journal'' ''Notes'' ''zph8yxjDa80f9VnL'' example_rng
       = Inr ([], example_rng)"
    using split_entry_both_empty [where fgu_entry = example_empty and ymd = example_ymd
        and public_title = "''Journal''" and private_title = "''Notes''"
        and author = "''zph8yxjDa80f9VnL''" and g = example_rng] pub priv ymd
    by blast
  have pub2: "textify (find_child ''logentry'' example_private_only) = Inr []"
    by (simp add: example_private_only_def example_textify_public example_textify_empty)
  have priv2: "textify (find_child ''gmlogentry'' example_private_only)
                 = Inr ''<p>Left Karina in Elesomare.</p>''"
    by (simp add: example_private_only_def example_textify_private example_textify_left)
  have ymd2: "time_fields example_private_only [''year'', ''month'', ''day''] = Inr example_ymd"
    unfolding example_private_only_def by (rule example_time_fields)
  obtain entry where run:
    "get_fvtt_entries example_private_only ''Journal'' ''Notes'' ''zph8yxjDa80f9VnL'' example_rng
       = Inr ([entry], \<lambda>i. example_rng (Suc i))"
    by (simp add: get_fvtt_entries_unfold [OF ymd2 pub2 priv2] Let_def)
  have "(\<exists>content. dict_get entry ''content'' = Some (JStr content) \<and> content \<noteq> [])
       \<and> dict_get entry ''playerVisible'' = Some (JBool False)"
    using split_entry_both_empty [where fgu_entry = example_private_only and ymd = example_ymd
        and public_title = "''Journal''" and private_title = "''Notes''"
        and author = "''zph8yxjDa80f9VnL''" and g = example_rng] run pub2
    by (simp del: ex_simps)
  with pub priv ymd none run show ?thesis by blast
qed

section \<open>Properties of the whole run\<close>

lemma fvtt_entries_fail:
  assumes "e \<in> set logs" and "\<And>g. \<exists>err. get_fvtt_entries e pt prt a g = Inl err"
  shows "\<exists>err. fvtt_entries logs pt prt a g = Inl err"
  using assms(1)
proof (induction logs arbitrary: g)
  case Nil
  then show ?case by simp
next
  case (Cons x logs)
  show ?case
  proof (cases "get_fvtt_entries x pt prt a g")
    case (Inl err)
    then show ?thesis by simp
  next
    case (Inr r)
    obtain entries g' where r: "r = (entries, g')" by (cases r)
    from Inr assms(2) [of g] have "x \<noteq> e" by auto
    with Cons.prems have "e \<in> set logs" by simp
    from Cons.IH [OF this, of g'] obtain err where "fvtt_entries logs pt prt a g' = Inl err" ..
    with Inr r show ?thesis by simp
  qed
qed

lemma fvtt_make_backup: "fvtt (make_backup fs) = fvtt fs"
  by (simp add: make_backup_def Let_def)

lemma backup_index_fresh: "backup_index existing index \<notin> set existing"
proof (induction existing index rule: backup_index.induct)
  case (1 existing index)
  then show ?case
    by (subst backup_index.simps) simp
qed

lemma main_failed_untouched:
  "fst (main loads author pt prt fgu g fs) \<noteq> Exit_clean \<Longrightarrow>
     snd (main loads author pt prt fgu g fs) = make_backup fs"
  by (auto simp: main_def Let_def split: option.splits sum.splits prod.splits)

lemma exit_code_nonzero: "exit_code out \<noteq> 0 \<longleftrightarrow> out \<noteq> Exit_clean"
  by (cases out) (simp_all add: exit_code_def)

lemma find_settings_not_found:
  assumes "\<forall>line\<in>set lines. \<exists>payload k. loads (strip line) = Inr payload
             \<and> json_getitem payload ''key'' = Inr k \<and> k \<noteq> JStr CAL_SETTINGS"
  shows "find_settings loads lines n = Inr None"
  using assms by (induction lines arbitrary: n) auto

text \<open>
  C3. When \<^verbatim>\<open>year\<close>, \<^verbatim>\<open>month\<close> or \<^verbatim>\<open>day\<close> is missing from an entry, has no text,
  or has a text that \<^verbatim>\<open>int\<close> rejects, the conversion of the entry raises
  (\<^verbatim>\<open>AttributeError\<close>, \<^verbatim>\<open>TypeError\<close> or \<^verbatim>\<open>ValueError\<close>: the parse failures of the
  script). Nothing catches the exception: a run whose log holds such an entry ends with
  an uncaught exception, returns no entries, and leaves the settings file as it was.
\<close>

theorem bad_time_field_is_fatal:
  assumes "name \<in> {''year'', ''month'', ''day''}"
    and "find_child name fgu_entry = None
         \<or> (\<exists>el. find_child name fgu_entry = Some el
                \<and> (etext el = None \<or> (\<exists>s. etext el = Some s \<and> py_int s = None)))"
  shows "(\<exists>err\<in>{AttributeError, TypeError, ValueError}.
            get_fvtt_entries fgu_entry public_title private_title author g = Inl err)
       \<and> (\<forall>root logs. fgu_db_logs root = Inr logs \<and> fgu_entry \<in> set logs \<longrightarrow>
            (\<exists>err. main loads author public_title private_title (Some root) g fs
                      = (Uncaught err, make_backup fs))
            \<and> fvtt (make_backup fs) = fvtt fs)"
proof -
  from assms(2) obtain err0 where "time_field fgu_entry name = Inl err0"
    by (auto simp: time_field_def)
  with assms(1) obtain err where tf: "time_fields fgu_entry [''year'', ''month'', ''day''] = Inl err"
    using time_fields_fail [of name "[''year'', ''month'', ''day'']" fgu_entry err0] by auto
  then have fail: "get_fvtt_entries fgu_entry public_title private_title author h = Inl err" for h
    by (rule get_fvtt_entries_time_error)
  from tf have "err \<in> {AttributeError, TypeError, ValueError}"
    by (rule time_fields_errors)
  with fail [of g] have first: "\<exists>err\<in>{AttributeError, TypeError, ValueError}.
            get_fvtt_entries fgu_entry public_title private_title author g = Inl err"
    by blast
  have second: "(\<exists>err. main loads author public_title private_title (Some root) g fs
                      = (Uncaught err, make_backup fs))
            \<and> fvtt (make_backup fs) = fvtt fs"
    if logs: "fgu_db_logs root = Inr logs" and mem: "fgu_entry \<in> set logs" for root logs
  proof -
    have "\<exists>err. fvtt_entries logs public_title private_title author g = Inl err"
      using mem fail by (intro fvtt_entries_fail [of fgu_entry]) auto
    then obtain err' where "fvtt_entries logs public_title private_title author g = Inl err'" ..
    with logs show ?thesis
      by (simp add: main_def Let_def fvtt_make_backup)
  qed
  from first second show ?thesis by blast
qed

theorem bad_time_field_is_fatal_witness:
  "''year'' \<in> {''year'', ''month'', ''day''}
   \<and> find_child ''year'' example_bad_year = Some (example_number ''year'' ''4721 AR'')
   \<and> etext (example_number ''year'' ''4721 AR'') = Some ''4721 AR''
   \<and> py_int ''4721 AR'' = None
   \<and> (\<exists>err\<in>{AttributeError, TypeError, ValueError}.
         get_fvtt_entries example_bad_year ''Journal'' ''Notes'' ''zph8yxjDa80f9VnL'' example_rng
           = Inl err)
   \<and> fgu_db_logs (example_root [example_both, example_bad_year])
       = Inr [example_both, example_bad_year]
   \<and> (\<exists>err. main example_loads ''zph8yxjDa80f9VnL'' ''Journal'' ''Notes''
                (Some (example_root [example_both, example_bad_year])) example_rng
                example_files_without_key
              = (Uncaught err, make_backup example_files_without_key))
   \<and> fvtt (make_backup example_files_without_key) = fvtt example_files_without_key"
proof -
  have name: "''year'' \<in> {''year'', ''month'', ''day''}"
    by simp
  have found: "find_child ''year'' example_bad_year = Some (example_number ''year'' ''4721 AR'')"
    by (simp add: example_bad_year_def example_entry_def example_number_def example_block_def
        find_child_def)
  have has_text: "etext (example_number ''year'' ''4721 AR'') = Some ''4721 AR''"
    by (simp add: example_number_def)
  have bad: "py_int ''4721 AR'' = None"
    by (simp add: int_defs)
  have logs: "fgu_db_logs (example_root [example_both, example_bad_year])
                = Inr [example_both, example_bad_year]"
    by (simp add: example_fgu_db_logs example_both_def example_bad_year_def example_entry_tag)
  have hyp: "find_child ''year'' example_bad_year = None
         \<or> (\<exists>el. find_child ''year'' example_bad_year = Some el
                \<and> (etext el = None \<or> (\<exists>s. etext el = Some s \<and> py_int s = None)))"
    using found has_text bad by blast
  note run = bad_time_field_is_fatal [OF name hyp, where public_title = "''Journal''"
      and private_title = "''Notes''" and author = "''zph8yxjDa80f9VnL''" and g = example_rng
      and loads = example_loads and fs = example_files_without_key]
  from run have entry: "\<exists>err\<in>{AttributeError, TypeError, ValueError}.
         get_fvtt_entries example_bad_year ''Journal'' ''Notes'' ''zph8yxjDa80f9VnL'' example_rng
           = Inl err"
    by blast
  have mem: "example_bad_year \<in> set [example_both, example_bad_year]"
    by simp
  from run logs mem have whole: "(\<exists>err. main example_loads ''zph8yxjDa80f9VnL'' ''Journal'' ''Notes''
                (Some (example_root [example_both, example_bad_year])) example_rng
                example_files_without_key
              = (Uncaught err, make_backup example_files_without_key))
            \<and> fvtt (make_backup example_files_without_key) = fvtt example_files_without_key"
    by blast
  from name found has_text bad entry logs whole show ?thesis by blast
qed

text \<open>
  C9. The statement \<^verbatim>\<open>print(dumps(fvtt_entries[50], indent=4))\<close> reads the 51st
  entry. When the log yields 50 entries or fewer the run ends there with an uncaught
  \<^verbatim>\<open>IndexError\<close>: the backup has been made under an index that was free, and the
  settings file has not been written.
\<close>

theorem too_few_entries_index_error:
  assumes "fgu_db_logs root = Inr logs"
    and "fvtt_entries logs public_title private_title author g = Inr (entries, g')"
    and "length entries \<le> 50"
  shows "main loads author public_title private_title (Some root) g fs
           = (Uncaught IndexError, make_backup fs)
       \<and> fvtt (make_backup fs) = fvtt fs
       \<and> (\<exists>index. index \<notin> fst ` set (backups fs)
             \<and> backups (make_backup fs) = backups fs @ [(index, fvtt fs)])"
proof -
  have "backup_index (map fst (backups fs)) 0 \<notin> fst ` set (backups fs)"
    using backup_index_fresh [of "map fst (backups fs)" 0] by simp
  then have "\<exists>index. index \<notin> fst ` set (backups fs)
             \<and> backups (make_backup fs) = backups fs @ [(index, fvtt fs)]"
    by (auto simp: make_backup_def Let_def)
  with assms show ?thesis
    by (simp add: main_def Let_def fvtt_make_backup list_getitem_def)
qed

theorem too_few_entries_index_error_witness:
  "fgu_db_logs (example_root [example_both]) = Inr [example_both]
   \<and> (\<exists>entries g'.
         fvtt_entries [example_both] ''Journal'' ''Notes'' ''zph8yxjDa80f9VnL'' example_rng
           = Inr (entries, g')
       \<and> length entries \<le> 50)
   \<and> main example_loads ''zph8yxjDa80f9VnL'' ''Journal'' ''Notes''
        (Some (example_root [example_both])) example_rng example_files_without_key
       = (Uncaught IndexError, make_backup example_files_without_key)
   \<and> fvtt (make_backup example_files_without_key) = fvtt example_files_without_key
   \<and> backups (make_backup example_files_without_key) = [(0, ''{}''), (1, fvtt example_files_without_key)]"
proof -
  have logs: "fgu_db_logs (example_root [example_both]) = Inr [example_both]"
    by (simp add: example_fgu_db_logs example_both_def example_entry_tag)
  from example_both_entries [of "''Journal''" "''Notes''" "''zph8yxjDa80f9VnL''" example_rng]
  obtain pub priv where entries:
    "fvtt_entries [example_both] ''Journal'' ''Notes'' ''zph8yxjDa80f9VnL'' example_rng
       = Inr ([pub, priv], \<lambda>i. example_rng (Suc (Suc i)))"
    unfolding fvtt_entries_single by blast
  have few: "length [pub, priv] \<le> 50"
    by simp
  note run = too_few_entries_index_error [OF logs entries few, where loads = example_loads
      and fs = example_files_without_key]
  have backups: "backups (make_backup example_files_without_key)
                   = [(0, ''{}''), (1, fvtt example_files_without_key)]"
    by (simp add: make_backup_def example_files_without_key_def Let_def
        backup_index.simps [of _ 0] backup_index.simps [of _ "Suc 0"])
  from logs entries few run backups show ?thesis by blast
qed

end
